theory Spec2Isabelle
  imports Main
begin

section \<open>Text\<close>

text \<open>
  A Python \<open>str\<close> is a sequence of Unicode code points, so a text is a list of
  natural numbers. The tables of the interpreter that hold for every code point are
  written out in full: \<open>str.isspace\<close> and the class \<open>\s\<close> of \<open>re\<close>, the decimal
  digits (the class \<open>\d\<close>, its complement \<open>\D\<close> and the digits \<open>int\<close> reads), and the
  comparison of \<open>re.IGNORECASE\<close> with an ASCII character of a pattern. The other tables
  (\<open>str.upper\<close>, \<open>str.lower\<close>, the letters of \<open>\w\<close> and \<open>unicodedata.normalize\<close>) are
  written out for the code points U+0000 to U+00FF and for the code points these map to;
  \<open>latin1\<close> names the texts inside that range.
\<close>

type_synonym ustr = "nat list"

definition asc :: "string \<Rightarrow> ustr" where
  "asc s = map of_char s"


definition is_space :: "nat \<Rightarrow> bool" where
  "is_space c =
     ((9 \<le> c \<and> c \<le> 13) \<or> (28 \<le> c \<and> c \<le> 32) \<or> c = 0x85 \<or> c = 0xA0 \<or> c = 0x1680
      \<or> (0x2000 \<le> c \<and> c \<le> 0x200A) \<or> c = 0x2028 \<or> c = 0x2029 \<or> c = 0x202F
      \<or> c = 0x205F \<or> c = 0x3000)"

text \<open>
  The decimal digits are the code points of the category \<open>Nd\<close> (Unicode 14.0, the
  tables of CPython 3.11): the ASCII digits, and for every other script ten consecutive
  code points, from its digit zero to its digit nine. \<open>decimal_zeros\<close> lists the digits
  zero beyond ASCII, \<open>digit_value\<close> is the number a decimal digit stands for.
\<close>

definition decimal_zeros :: "nat list" where
  "decimal_zeros =
     [0x660, 0x6F0, 0x7C0, 0x966, 0x9E6, 0xA66, 0xAE6, 0xB66,
      0xBE6, 0xC66, 0xCE6, 0xD66, 0xDE6, 0xE50, 0xED0, 0xF20,
      0x1040, 0x1090, 0x17E0, 0x1810, 0x1946, 0x19D0, 0x1A80, 0x1A90,
      0x1B50, 0x1BB0, 0x1C40, 0x1C50, 0xA620, 0xA8D0, 0xA900, 0xA9D0,
      0xA9F0, 0xAA50, 0xABF0, 0xFF10, 0x104A0, 0x10D30, 0x11066, 0x110F0,
      0x11136, 0x111D0, 0x112F0, 0x11450, 0x114D0, 0x11650, 0x116C0, 0x11730,
      0x118E0, 0x11950, 0x11C50, 0x11D50, 0x11DA0, 0x16A60, 0x16AC0, 0x16B50,
      0x1D7CE, 0x1D7D8, 0x1D7E2, 0x1D7EC, 0x1D7F6, 0x1E140, 0x1E2F0, 0x1E950,
      0x1FBF0]"

definition is_digit :: "nat \<Rightarrow> bool" where
  "is_digit c =
     (if c < 128 then 48 \<le> c \<and> c \<le> 57
      else list_ex (\<lambda>z. z \<le> c \<and> c < z + 10) decimal_zeros)"

definition digit_value :: "nat \<Rightarrow> nat" where
  "digit_value c =
     (if c < 128 then c - 48
      else case find (\<lambda>z. z \<le> c \<and> c < z + 10) decimal_zeros of
             None \<Rightarrow> 0
           | Some z \<Rightarrow> c - z)"

definition is_word :: "nat \<Rightarrow> bool" where
  "is_word c =
     (is_digit c \<or> (65 \<le> c \<and> c \<le> 90) \<or> c = 95 \<or> (97 \<le> c \<and> c \<le> 122)
      \<or> c = 0xAA \<or> c = 0xB2 \<or> c = 0xB3 \<or> c = 0xB5 \<or> c = 0xB9 \<or> c = 0xBA
      \<or> (0xBC \<le> c \<and> c \<le> 0xBE) \<or> (0xC0 \<le> c \<and> c \<le> 0xD6)
      \<or> (0xD8 \<le> c \<and> c \<le> 0xF6) \<or> (0xF8 \<le> c \<and> c \<le> 0xFF)
      \<or> c = 0x178 \<or> c = 0x39C \<or> c = 0x3BC)"

definition upper_char :: "nat \<Rightarrow> ustr" where
  "upper_char c =
     (if 97 \<le> c \<and> c \<le> 122 then [c - 32]
      else if c = 0xB5 then [0x39C]
      else if c = 0xDF then [0x53, 0x53]
      else if 0xE0 \<le> c \<and> c \<le> 0xFE \<and> c \<noteq> 0xF7 then [c - 32]
      else if c = 0xFF then [0x178]
      else if c = 0x3BC then [0x39C]
      else [c])"

text \<open>
  \<open>str.lower\<close> on one character; besides the code points up to U+00FF and their
  upper-case forms the table holds U+0130 and U+212A, the two characters beyond ASCII that
  it takes to an ASCII letter.
\<close>

definition lower_char :: "nat \<Rightarrow> ustr" where
  "lower_char c =
     (if 65 \<le> c \<and> c \<le> 90 then [c + 32]
      else if 0xC0 \<le> c \<and> c \<le> 0xDE \<and> c \<noteq> 0xD7 then [c + 32]
      else if c = 0x130 then [0x69, 0x307]
      else if c = 0x178 then [0xFF]
      else if c = 0x39C then [0x3BC]
      else if c = 0x212A then [0x6B]
      else [c])"

definition py_upper :: "ustr \<Rightarrow> ustr" where
  "py_upper s = concat (map upper_char s)"

definition py_lower :: "ustr \<Rightarrow> ustr" where
  "py_lower s = concat (map lower_char s)"

definition py_strip :: "ustr \<Rightarrow> ustr" where
  "py_strip s = rev (dropWhile is_space (rev (dropWhile is_space s)))"

fun startswith :: "'a list \<Rightarrow> 'a list \<Rightarrow> bool" where
  "startswith s [] = True"
| "startswith [] (p # ps) = False"
| "startswith (c # cs) (p # ps) = (c = p \<and> startswith cs ps)"

text \<open>\<open>contains s x\<close> is Python's \<open>x in s\<close> on strings.\<close>

fun contains :: "'a list \<Rightarrow> 'a list \<Rightarrow> bool" where
  "contains [] x = (x = [])"
| "contains (c # cs) x = (startswith (c # cs) x \<or> contains cs x)"

fun find_from :: "'a list \<Rightarrow> 'a list \<Rightarrow> nat \<Rightarrow> nat option" where
  "find_from [] x pos = (if x = [] then Some pos else None)"
| "find_from (c # cs) x pos = (if startswith (c # cs) x then Some pos else find_from cs x (Suc pos))"

text \<open>\<open>str_find s x\<close> is \<open>s.find(x)\<close>, with \<open>None\<close> for \<open>-1\<close>; \<open>slice i j s\<close>
  is \<open>s[i:j]\<close> for indices that are not negative.\<close>

definition str_find :: "'a list \<Rightarrow> 'a list \<Rightarrow> nat option" where
  "str_find s x = find_from s x 0"

definition slice :: "nat \<Rightarrow> nat \<Rightarrow> 'a list \<Rightarrow> 'a list" where
  "slice i j s = take (j - i) (drop i s)"

text \<open>\<open>split_char sep s\<close> is \<open>s.split(sep)\<close> for a separator of one character.\<close>

fun split_char :: "nat \<Rightarrow> ustr \<Rightarrow> ustr list" where
  "split_char sep [] = [[]]"
| "split_char sep (c # cs) =
     (if c = sep then [] # split_char sep cs
      else (case split_char sep cs of [] \<Rightarrow> [[c]] | w # ws \<Rightarrow> (c # w) # ws))"




text \<open>\<open>zfill n s\<close> is \<open>s.zfill(n)\<close> on a string of digits, \<open>py_int\<close> is \<open>int\<close> on
  the strings the patterns capture: it raises \<open>ValueError\<close> (here \<open>None\<close>) on anything
  that is not a non-empty string of digits.\<close>

definition zfill :: "nat \<Rightarrow> ustr \<Rightarrow> ustr" where
  "zfill n s = replicate (n - length s) 48 @ s"

definition py_int :: "ustr \<Rightarrow> nat option" where
  "py_int s = (if s \<noteq> [] \<and> list_all is_digit s
               then Some (foldl (\<lambda>n c. 10 * n + digit_value c) 0 s) else None)"

fun str_nat :: "nat \<Rightarrow> ustr" where
  "str_nat n = (if n < 10 then [48 + n] else str_nat (n div 10) @ [48 + n mod 10])"

text \<open>\<open>nfkd\<close> is \<open>unicodedata.normalize("NFKD", s)\<close>. On these code points the
  decomposition of a text is the decomposition of its characters, one after the other.\<close>

definition nfkd_char :: "nat \<Rightarrow> ustr" where
  "nfkd_char c =
     (if c = 0xA0 then [0x20] else if c = 0xA8 then [0x20, 0x308] else if c = 0xAA then [0x61]
      else if c = 0xAF then [0x20, 0x304] else if c = 0xB2 then [0x32] else if c = 0xB3 then [0x33]
      else if c = 0xB4 then [0x20, 0x301] else if c = 0xB5 then [0x3BC] else if c = 0xB8 then [0x20, 0x327]
      else if c = 0xB9 then [0x31] else if c = 0xBA then [0x6F]
      else if c = 0xBC then [0x31, 0x2044, 0x34] else if c = 0xBD then [0x31, 0x2044, 0x32]
      else if c = 0xBE then [0x33, 0x2044, 0x34]
      else if c = 0xC0 then [0x41, 0x300] else if c = 0xC1 then [0x41, 0x301] else if c = 0xC2 then [0x41, 0x302]
      else if c = 0xC3 then [0x41, 0x303] else if c = 0xC4 then [0x41, 0x308] else if c = 0xC5 then [0x41, 0x30A]
      else if c = 0xC7 then [0x43, 0x327]
      else if c = 0xC8 then [0x45, 0x300] else if c = 0xC9 then [0x45, 0x301] else if c = 0xCA then [0x45, 0x302]
      else if c = 0xCB then [0x45, 0x308]
      else if c = 0xCC then [0x49, 0x300] else if c = 0xCD then [0x49, 0x301] else if c = 0xCE then [0x49, 0x302]
      else if c = 0xCF then [0x49, 0x308] else if c = 0xD1 then [0x4E, 0x303]
      else if c = 0xD2 then [0x4F, 0x300] else if c = 0xD3 then [0x4F, 0x301] else if c = 0xD4 then [0x4F, 0x302]
      else if c = 0xD5 then [0x4F, 0x303] else if c = 0xD6 then [0x4F, 0x308]
      else if c = 0xD9 then [0x55, 0x300] else if c = 0xDA then [0x55, 0x301] else if c = 0xDB then [0x55, 0x302]
      else if c = 0xDC then [0x55, 0x308] else if c = 0xDD then [0x59, 0x301]
      else if c = 0xE0 then [0x61, 0x300] else if c = 0xE1 then [0x61, 0x301] else if c = 0xE2 then [0x61, 0x302]
      else if c = 0xE3 then [0x61, 0x303] else if c = 0xE4 then [0x61, 0x308] else if c = 0xE5 then [0x61, 0x30A]
      else if c = 0xE7 then [0x63, 0x327]
      else if c = 0xE8 then [0x65, 0x300] else if c = 0xE9 then [0x65, 0x301] else if c = 0xEA then [0x65, 0x302]
      else if c = 0xEB then [0x65, 0x308]
      else if c = 0xEC then [0x69, 0x300] else if c = 0xED then [0x69, 0x301] else if c = 0xEE then [0x69, 0x302]
      else if c = 0xEF then [0x69, 0x308] else if c = 0xF1 then [0x6E, 0x303]
      else if c = 0xF2 then [0x6F, 0x300] else if c = 0xF3 then [0x6F, 0x301] else if c = 0xF4 then [0x6F, 0x302]
      else if c = 0xF5 then [0x6F, 0x303] else if c = 0xF6 then [0x6F, 0x308]
      else if c = 0xF9 then [0x75, 0x300] else if c = 0xFA then [0x75, 0x301] else if c = 0xFB then [0x75, 0x302]
      else if c = 0xFC then [0x75, 0x308] else if c = 0xFD then [0x79, 0x301] else if c = 0xFF then [0x79, 0x308]
      else [c])"

definition nfkd :: "ustr \<Rightarrow> ustr" where
  "nfkd s = concat (map nfkd_char s)"

text \<open>The sentinel \<open>"Dado n\~ao dispon\'ivel no documento"\<close>, one constant in every module.\<close>

definition DATA_NOT_AVAILABLE :: ustr where
  "DATA_NOT_AVAILABLE = asc ''Dado n'' @ [0xE3] @ asc ''o dispon'' @ [0xED] @ asc ''vel no documento''"

section \<open>Regular expressions\<close>

text \<open>
  The patterns of the extractors use literals, character classes, \<open>\d\<close>, \<open>\s\<close>, \<open>\b\<close>,
  \<open>^\<close>, \<open>$\<close>, greedy \<open>?\<close>, \<open>*\<close>, \<open>+\<close> and \<open>{m,n}\<close>, alternation and capture groups.
  \<open>rmatch\<close> is the backtracking matcher of \<open>re\<close> on this fragment: from a state (the
  character before the position, the text from the position on, the groups captured so
  far) it returns every way to match, in the order in which \<open>re\<close> tries them, so the head
  of the list is the match \<open>re\<close> reports. \<open>ic\<close> is the flag \<open>re.IGNORECASE\<close>.
\<close>

datatype cset = Ch nat | Rng nat nat | Digit | Space

datatype regex =
    Eps
  | Sym "cset list"
  | Seq regex regex
  | Alt regex regex
  | Star regex
  | Group nat regex
  | WordB
  | Bol
  | Eol

text \<open>
  Under \<open>re.IGNORECASE\<close> the patterns of the source hold ASCII characters only. \<open>re\<close>
  takes a character of the text for an ASCII character of the pattern when the two are
  equal up to the case of the ASCII letters; besides, U+0130 and U+0131 stand for
  \<open>i\<close>, U+017F for \<open>s\<close> and U+212A for \<open>k\<close>. \<open>ci_fold\<close> maps every character to the
  lower-case ASCII letter it stands for, \<open>ci_eq x c\<close> compares the character \<open>x\<close> of a
  pattern with the character \<open>c\<close> of the text.
\<close>

definition ci_fold :: "nat \<Rightarrow> nat" where
  "ci_fold c =
     (if 65 \<le> c \<and> c \<le> 90 then c + 32
      else if c = 0x130 \<or> c = 0x131 then 0x69
      else if c = 0x17F then 0x73
      else if c = 0x212A then 0x6B
      else c)"

definition ci_eq :: "nat \<Rightarrow> nat \<Rightarrow> bool" where
  "ci_eq x c = (ci_fold x = ci_fold c)"

fun cset_match :: "bool \<Rightarrow> nat \<Rightarrow> cset \<Rightarrow> bool" where
  "cset_match ic c (Ch x) = (if ic then ci_eq x c else x = c)"
| "cset_match ic c (Rng lo hi) = (if ic then list_ex (\<lambda>x. ci_eq x c) [lo..<Suc hi] else lo \<le> c \<and> c \<le> hi)"
| "cset_match ic c Digit = is_digit c"
| "cset_match ic c Space = is_space c"

type_synonym mstate = "nat option \<times> ustr \<times> (nat \<times> ustr) list"

definition at_boundary :: "nat option \<Rightarrow> ustr \<Rightarrow> bool" where
  "at_boundary prev rest =
     ((case prev of None \<Rightarrow> False | Some c \<Rightarrow> is_word c)
        \<noteq> (case rest of [] \<Rightarrow> False | c # _ \<Rightarrow> is_word c))"

fun rmatch :: "bool \<Rightarrow> regex \<Rightarrow> mstate \<Rightarrow> mstate list" where
  "rmatch ic Eps st = [st]"
| "rmatch ic (Sym cs) (prev, [], caps) = []"
| "rmatch ic (Sym cs) (prev, c # rest, caps) =
     (if list_ex (cset_match ic c) cs then [(Some c, rest, caps)] else [])"
| "rmatch ic (Seq a b) st = concat (map (rmatch ic b) (rmatch ic a st))"
| "rmatch ic (Alt a b) st = rmatch ic a st @ rmatch ic b st"
| "rmatch ic (Star a) (prev, rest, caps) =
     concat (map (\<lambda>st'. if length (fst (snd st')) < length rest then rmatch ic (Star a) st' else [])
                 (rmatch ic a (prev, rest, caps)))
       @ [(prev, rest, caps)]"
| "rmatch ic (Group n a) (prev, rest, caps) =
     map (\<lambda>(prev', rest', caps'). (prev', rest', (n, take (length rest - length rest') rest) # caps'))
         (rmatch ic a (prev, rest, caps))"
| "rmatch ic WordB (prev, rest, caps) = (if at_boundary prev rest then [(prev, rest, caps)] else [])"
| "rmatch ic Bol (prev, rest, caps) = (if prev = None then [(prev, rest, caps)] else [])"
| "rmatch ic Eol (prev, rest, caps) = (if rest = [] \<or> rest = [10] then [(prev, rest, caps)] else [])"

text \<open>Derived forms: a literal string, a sequence, \<open>r+\<close>, \<open>r?\<close>, \<open>\d{1,2}\<close>, \<open>\d{n}\<close>.\<close>

definition lit :: "ustr \<Rightarrow> regex" where
  "lit s = foldr (\<lambda>c r. Seq (Sym [Ch c]) r) s Eps"

definition seqs :: "regex list \<Rightarrow> regex" where
  "seqs rs = foldr Seq rs Eps"

definition plus :: "regex \<Rightarrow> regex" where
  "plus r = Seq r (Star r)"

definition opt :: "regex \<Rightarrow> regex" where
  "opt r = Alt r Eps"

definition digit :: regex where "digit = Sym [Digit]"
definition spaces :: regex where "spaces = plus (Sym [Space])"
definition digit12 :: regex where "digit12 = Seq digit (opt digit)"
definition digit2 :: regex where "digit2 = seqs [digit, digit]"
definition digit3 :: regex where "digit3 = seqs [digit, digit, digit]"
definition digit4 :: regex where "digit4 = seqs [digit, digit, digit, digit]"

text \<open>
  A match object: \<open>m.start()\<close>, \<open>m.group(0)\<close> and the numbered groups. \<open>re_match\<close> tries
  the pattern at the start of the text only, \<open>re_search\<close> at each position from the left,
  and \<open>finditer\<close> resumes the search at the end of the previous match. No pattern below
  matches the empty string; on an empty match the scan stops.
\<close>

datatype match = Match (m_start: nat) (m_group0: ustr) (m_groups: "(nat \<times> ustr) list")

definition group :: "match \<Rightarrow> nat \<Rightarrow> ustr" where
  "group m n = (case map_of (m_groups m) n of None \<Rightarrow> [] | Some g \<Rightarrow> g)"

fun search_from :: "bool \<Rightarrow> regex \<Rightarrow> nat option \<Rightarrow> ustr \<Rightarrow> nat \<Rightarrow> (match \<times> nat option \<times> ustr) option" where
  "search_from ic r prev [] pos =
     (case rmatch ic r (prev, [], []) of
        [] \<Rightarrow> None
      | (prev', rest', caps) # _ \<Rightarrow> Some (Match pos [] caps, prev', rest'))"
| "search_from ic r prev (c # cs) pos =
     (case rmatch ic r (prev, c # cs, []) of
        [] \<Rightarrow> search_from ic r (Some c) cs (Suc pos)
      | (prev', rest', caps) # _ \<Rightarrow>
          Some (Match pos (take (length (c # cs) - length rest') (c # cs)) caps, prev', rest'))"

definition re_search :: "bool \<Rightarrow> regex \<Rightarrow> ustr \<Rightarrow> match option" where
  "re_search ic r s = map_option fst (search_from ic r None s 0)"

definition re_match :: "bool \<Rightarrow> regex \<Rightarrow> ustr \<Rightarrow> match option" where
  "re_match ic r s =
     (case rmatch ic r (None, s, []) of
        [] \<Rightarrow> None
      | (prev', rest', caps) # _ \<Rightarrow> Some (Match 0 (take (length s - length rest') s) caps))"

function finditer_from :: "bool \<Rightarrow> regex \<Rightarrow> nat option \<Rightarrow> ustr \<Rightarrow> nat \<Rightarrow> match list" where
  "finditer_from ic r prev rest pos =
     (case search_from ic r prev rest pos of
        None \<Rightarrow> []
      | Some (m, prev', rest') \<Rightarrow>
          (if length rest' < length rest \<and> m_group0 m \<noteq> []
           then m # finditer_from ic r prev' rest' (m_start m + length (m_group0 m))
           else [m]))"
  by pat_completeness auto
termination
  by (relation "measure (\<lambda>(ic, r, prev, rest, pos). length rest)") auto

definition finditer :: "bool \<Rightarrow> regex \<Rightarrow> ustr \<Rightarrow> match list" where
  "finditer ic r s = finditer_from ic r None s 0"


text \<open>The match \<open>re\<close> reports from a state: the head of the list, if there is one.\<close>

definition first_match :: "bool \<Rightarrow> regex \<Rightarrow> mstate \<Rightarrow> mstate option" where
  "first_match ic r st = (case rmatch ic r st of [] \<Rightarrow> None | x # _ \<Rightarrow> Some x)"



section \<open>DateExtractor\<close>

definition is_leap :: "nat \<Rightarrow> bool" where
  "is_leap y = (y mod 4 = 0 \<and> (y mod 100 \<noteq> 0 \<or> y mod 400 = 0))"

definition days_in_month :: "nat \<Rightarrow> nat \<Rightarrow> nat" where
  "days_in_month y m =
     (if m = 2 then (if is_leap y then 29 else 28)
      else if m = 4 \<or> m = 6 \<or> m = 9 \<or> m = 11 then 30 else 31)"

definition valid_ymd :: "nat \<Rightarrow> nat \<Rightarrow> nat \<Rightarrow> bool" where
  "valid_ymd y m d = (1 \<le> y \<and> y \<le> 9999 \<and> 1 \<le> m \<and> m \<le> 12 \<and> 1 \<le> d \<and> d \<le> days_in_month y m)"

definition is_valid_date :: "ustr \<Rightarrow> ustr \<Rightarrow> ustr \<Rightarrow> bool" where
  "is_valid_date day month year =
     (case (py_int year, py_int month, py_int day) of
        (Some y, Some m, Some d) \<Rightarrow> valid_ymd y m d
      | _ \<Rightarrow> False)"

definition ISO_DATE_PATTERN :: regex where
  "ISO_DATE_PATTERN = seqs [Bol, digit4, lit (asc ''-''), digit2, lit (asc ''-''), digit2, Eol]"

definition SIMPLE_DATE_PATTERN :: regex where
  "SIMPLE_DATE_PATTERN = Group 1 (seqs [digit12, lit (asc ''/''), digit12, lit (asc ''/''), digit4])"

definition MONTH_DATE_PATTERN :: regex where
  "MONTH_DATE_PATTERN =
     seqs [Group 1 digit12, spaces, lit (asc ''de''), spaces,
           Group 2 (plus (Sym [Rng 97 122])), spaces, lit (asc ''de''), spaces, Group 3 (digit4)]"

definition EXTENDED_DATE_PATTERN :: regex where
  "EXTENDED_DATE_PATTERN =
     seqs [plus digit, spaces, lit (asc ''de''), spaces,
           plus (Sym [Rng 97 122]), spaces, lit (asc ''de''), spaces, digit4]"

definition MONTH_NAMES :: "(ustr \<times> ustr) list" where
  "MONTH_NAMES =
     [(asc ''janeiro'', asc ''01''), (asc ''fevereiro'', asc ''02''),
      (asc ''mar'' @ [0xE7] @ asc ''o'', asc ''03''), (asc ''marco'', asc ''03''),
      (asc ''abril'', asc ''04''), (asc ''maio'', asc ''05''), (asc ''junho'', asc ''06''),
      (asc ''julho'', asc ''07''), (asc ''agosto'', asc ''08''), (asc ''setembro'', asc ''09''),
      (asc ''outubro'', asc ''10''), (asc ''novembro'', asc ''11''), (asc ''dezembro'', asc ''12'')]"

definition normalize_simple :: "ustr \<Rightarrow> ustr option" where
  "normalize_simple text =
     (case re_search False SIMPLE_DATE_PATTERN text of
        None \<Rightarrow> None
      | Some m \<Rightarrow>
          (case split_char 47 (group m 1) of
             [day, month, year] \<Rightarrow>
               if is_valid_date day month year
               then Some (year @ asc ''-'' @ zfill 2 month @ asc ''-'' @ zfill 2 day) else None
           | _ \<Rightarrow> None))"

definition normalize_extended :: "ustr \<Rightarrow> ustr option" where
  "normalize_extended text =
     (case re_search True MONTH_DATE_PATTERN text of
        None \<Rightarrow> None
      | Some m \<Rightarrow>
          (let day = group m 1; month_name = py_lower (group m 2); year = group m 3
           in case map_of MONTH_NAMES month_name of
                None \<Rightarrow> None
              | Some month \<Rightarrow>
                  if month \<noteq> [] \<and> is_valid_date day month year
                  then Some (year @ asc ''-'' @ month @ asc ''-'' @ zfill 2 day) else None))"

definition normalize_any :: "ustr \<Rightarrow> ustr option" where
  "normalize_any text0 =
     (if text0 = [] then None
      else let text = py_strip text0
           in case re_match False ISO_DATE_PATTERN text of
                Some m \<Rightarrow> Some text
              | None \<Rightarrow>
                  (case normalize_simple text of
                     Some r \<Rightarrow> Some r
                   | None \<Rightarrow> normalize_extended text))"












definition date_sep :: regex where "date_sep = Sym [Ch 47, Ch 45]"

definition numeric_date :: regex where
  "numeric_date = seqs [digit12, date_sep, digit12, date_sep, digit4]"

definition extended_date :: regex where
  "extended_date = seqs [digit12, spaces, lit (asc ''de''), spaces, plus (Sym [Rng 97 122]),
                         spaces, lit (asc ''de''), spaces, digit4]"

definition signature_patterns :: "regex list" where
  "signature_patterns =
     [seqs [lit (asc ''assinado''), spaces, lit (asc ''em''), spaces, Group 1 numeric_date],
      seqs [lit (asc ''firmado''), spaces, lit (asc ''em''), spaces, Group 1 numeric_date],
      seqs [lit (asc ''subscrito''), spaces, lit (asc ''em''), spaces, Group 1 numeric_date],
      seqs [lit (asc ''datado''), spaces, lit (asc ''de''), spaces, Group 1 numeric_date],
      seqs [lit (asc ''S'' @ [0xE3] @ asc ''o''), spaces, lit (asc ''Paulo''), opt (lit (asc '','')),
            Star (Sym [Space]), Group 1 numeric_date],
      seqs [lit (asc ''assinado''), spaces, lit (asc ''em''), spaces, Group 1 extended_date],
      seqs [lit (asc ''firmado''), spaces, lit (asc ''em''), spaces, Group 1 extended_date]]"

fun first_some :: "('a \<Rightarrow> 'b option) \<Rightarrow> 'a list \<Rightarrow> 'b option" where
  "first_some f [] = None"
| "first_some f (x # xs) = (case f x of Some y \<Rightarrow> Some y | None \<Rightarrow> first_some f xs)"

definition extract_signature_date_level_0 :: "ustr \<Rightarrow> ustr option" where
  "extract_signature_date_level_0 ocr_text =
     (if ocr_text = [] then None
      else let text_normalized = nfkd ocr_text;
               text_lower = py_lower text_normalized
           in first_some
                (\<lambda>pattern. first_some (\<lambda>m. normalize_any (group m 1)) (finditer False pattern text_lower))
                signature_patterns)"

subsection \<open>Signature date by proximity\<close>

definition law_keywords :: "ustr list" where
  "law_keywords =
     [asc ''lei'', asc ''decreto'', asc ''portaria'', asc ''resolu'' @ [0xE7, 0xE3] @ asc ''o'',
      asc ''medida provis'' @ [0xF3] @ asc ''ria'']"

text \<open>\<open>max(0, p - n)\<close> is the truncating subtraction of natural numbers.\<close>

definition is_date_in_law_context :: "ustr \<Rightarrow> ustr \<Rightarrow> bool" where
  "is_date_in_law_context text date_str =
     (case str_find text date_str of
        None \<Rightarrow> False
      | Some date_position \<Rightarrow>
          (let window_start = date_position - 100;
               context = slice window_start date_position text;
               context_lower = py_lower context
           in list_ex (\<lambda>keyword. contains context_lower keyword) law_keywords))"

definition window :: "ustr \<Rightarrow> nat \<Rightarrow> nat \<Rightarrow> ustr" where
  "window text position window_size =
     (let window_start = position - window_size;
          window_end = min (length text) (position + window_size)
      in slice window_start window_end text)"

definition name_pattern :: regex where
  "name_pattern =
     seqs [WordB, Sym [Rng 65 90], plus (Sym [Rng 97 122]),
           plus (seqs [spaces, Sym [Rng 65 90], plus (Sym [Rng 97 122])]), WordB]"

definition count_names_near_date :: "ustr \<Rightarrow> nat \<Rightarrow> nat" where
  "count_names_near_date text date_position =
     length (finditer False name_pattern (window text date_position 500))"

definition signature_keywords :: "ustr list" where
  "signature_keywords =
     [asc ''assinatura'', asc ''assina'', asc ''testemunha'', asc ''s'' @ [0xF3] @ asc ''cio'',
      asc ''administrador'', asc ''diretor'', asc ''presidente'', asc ''outorgante'',
      asc ''outorgado'']"

definition check_signature_section_proximity :: "ustr \<Rightarrow> nat \<Rightarrow> nat" where
  "check_signature_section_proximity text position =
     (let context = py_lower (window text position 500)
      in fold (\<lambda>keyword score. if contains context keyword then score + 10 else score)
           signature_keywords 0)"

text \<open>
  The body shared by the two loops of \<open>find_signature_date_by_proximity\<close>: from one
  occurrence (the date as written and where it starts) to the entry appended to
  \<open>dates_found\<close>, if any.
\<close>

definition candidate :: "ustr \<Rightarrow> ustr \<Rightarrow> nat \<Rightarrow> (ustr \<times> ustr \<times> nat) option" where
  "candidate text_normalized date_str position =
     (case normalize_any date_str of
        None \<Rightarrow> None
      | Some normalized \<Rightarrow>
          if is_date_in_law_context text_normalized date_str then None
          else (let proximity_score = check_signature_section_proximity text_normalized position;
                    names_count = count_names_near_date text_normalized position;
                    total_score = proximity_score + names_count * 10
                in Some (normalized, date_str, total_score)))"

definition simple_candidates :: "ustr \<Rightarrow> (ustr \<times> ustr \<times> nat) list" where
  "simple_candidates text_normalized =
     List.map_filter (\<lambda>m. candidate text_normalized (group m 1) (m_start m))
       (finditer True SIMPLE_DATE_PATTERN text_normalized)"

definition extended_candidates :: "ustr \<Rightarrow> (ustr \<times> ustr \<times> nat) list" where
  "extended_candidates text_normalized =
     List.map_filter (\<lambda>m. candidate text_normalized (m_group0 m) (m_start m))
       (finditer True EXTENDED_DATE_PATTERN text_normalized)"

definition dates_found :: "ustr \<Rightarrow> (ustr \<times> ustr \<times> nat) list" where
  "dates_found text_normalized = simple_candidates text_normalized @ extended_candidates text_normalized"

text \<open>
  \<open>list.sort(key=..., reverse=True)\<close> is stable: entries with equal scores keep their
  order. \<open>sort_key\<close> is a stable sort in ascending order, so the descending order is the
  ascending order of the negated score.
\<close>

definition total_score :: "ustr \<times> ustr \<times> nat \<Rightarrow> nat" where
  "total_score x = snd (snd x)"

definition sort_by_score :: "(ustr \<times> ustr \<times> nat) list \<Rightarrow> (ustr \<times> ustr \<times> nat) list" where
  "sort_by_score xs = sort_key (\<lambda>x. - int (total_score x)) xs"

definition find_signature_date_by_proximity :: "ustr \<Rightarrow> ustr option" where
  "find_signature_date_by_proximity ocr_text =
     (if ocr_text = [] then None
      else let text_normalized = nfkd ocr_text
           in case sort_by_score (dates_found text_normalized) of
                [] \<Rightarrow> None
              | x # _ \<Rightarrow> Some (fst x))"

section \<open>CNPJExtractor\<close>

definition CNPJ_LENGTH :: nat where
  "CNPJ_LENGTH = 14"

text \<open>\<open>digits_only s\<close> is \<open>re.sub(r'\D', '', s)\<close>: it keeps the decimal digits of every
  script.\<close>

definition digits_only :: "ustr \<Rightarrow> ustr" where
  "digits_only s = filter is_digit s"

definition format_cnpj :: "ustr \<Rightarrow> ustr" where
  "format_cnpj digits =
     slice 0 2 digits @ asc ''.'' @ slice 2 5 digits @ asc ''.'' @ slice 5 8 digits @ asc ''/''
       @ slice 8 12 digits @ asc ''-'' @ drop 12 digits"

definition normalize_cnpj :: "ustr \<Rightarrow> ustr" where
  "normalize_cnpj cnpj =
     (if cnpj = [] then []
      else let digits = digits_only cnpj
           in if length digits \<noteq> CNPJ_LENGTH then [] else format_cnpj digits)"

definition cnpj_number :: regex where
  "cnpj_number =
     seqs [digit2, opt (lit (asc ''.'')), digit3, opt (lit (asc ''.'')), digit3,
           opt (lit (asc ''/'')), digit4, opt (lit (asc ''-'')), digit2]"

definition label_sep :: regex where
  "label_sep = Star (Sym [Ch 58, Space, Ch 45])"

definition cnpj_patterns :: "regex list" where
  "cnpj_patterns =
     [seqs [WordB, Group 1 cnpj_number, WordB],
      seqs [WordB, Group 1 (seqs [digit4, digit4, digit4, digit2]), WordB],
      seqs [lit (asc ''CNPJ''), label_sep, Group 1 cnpj_number],
      seqs [lit (asc ''SEDE''), label_sep, Group 1 cnpj_number]]"

definition cnpj_of_match :: "match \<Rightarrow> ustr option" where
  "cnpj_of_match m =
     (let cnpj_raw = group m 1; cnpj_digits = digits_only cnpj_raw
      in if length cnpj_digits = CNPJ_LENGTH then Some (normalize_cnpj cnpj_digits) else None)"

definition extract_from_ocr :: "ustr \<Rightarrow> ustr" where
  "extract_from_ocr ocr_text =
     (if ocr_text = [] then []
      else case first_some (\<lambda>pattern. first_some cnpj_of_match (finditer True pattern ocr_text))
                  cnpj_patterns of
             None \<Rightarrow> []
           | Some cnpj \<Rightarrow> cnpj)"

section \<open>DocumentExtractor\<close>

definition word :: "string \<Rightarrow> regex" where
  "word s = lit (asc s)"

fun alts :: "regex list \<Rightarrow> regex" where
  "alts [] = Sym []"
| "alts [r] = r"
| "alts (r # q # rs) = Alt r (alts (q # rs))"

text \<open>Parts shared by several patterns: \<open>[\c{C}C][\~AA]O\<close>, \<open>ALTERA[\c{C}C][\~AA]O\<close>,
  \<open>ORDIN[A\'A]RIA\<close> and \<open>ATA\s+(?:DA\s+)?ASSEMBLEIA\s+GERAL\<close>.\<close>

definition CAO :: regex where
  "CAO = seqs [Sym [Ch 0xC7, Ch 67], Sym [Ch 0xC3, Ch 65], word ''O'']"

definition ALTERACAO :: regex where
  "ALTERACAO = seqs [word ''ALTERA'', CAO]"

definition ORDINARIA :: regex where
  "ORDINARIA = seqs [word ''ORDIN'', Sym [Ch 65, Ch 0xC1], word ''RIA'']"

definition ASSEMBLEIA_GERAL :: regex where
  "ASSEMBLEIA_GERAL =
     seqs [word ''ATA'', spaces, opt (seqs [word ''DA'', spaces]), word ''ASSEMBLEIA'', spaces,
           word ''GERAL'']"

text \<open>The rules in the order of the source: pattern, display name, type code.\<close>

definition DOCUMENT_PATTERNS :: "(regex \<times> ustr \<times> ustr) list" where
  "DOCUMENT_PATTERNS =
     [
      (seqs [word ''INSTRUMENTO'', spaces, word ''PARTICULAR'', spaces, word ''DE'', spaces,
             opt (alts [word ''PRIMEIRA'', word ''SEGUNDA'', word ''TERCEIRA'', word ''QUARTA'', word ''QUINTA'']),
             Star (Sym [Space]), ALTERACAO, spaces, opt (seqs [word ''DO'', spaces]),
             word ''CONTRATO'', spaces, word ''SOCIAL''],
       asc ''Instrumento Particular de Altera'' @ [0xE7, 0xE3] @ asc ''o Contrato Social'', asc ''CONTRATO_SOCIAL''),
      (seqs [word ''INSTRUMENTO'', spaces, word ''PARTICULAR'', spaces, word ''DE'', spaces, ALTERACAO],
       asc ''Instrumento Particular de Altera'' @ [0xE7, 0xE3] @ asc ''o'', asc ''CONTRATO_SOCIAL''),
      (seqs [word ''INSTRUMENTO'', spaces, word ''PARTICULAR''],
       asc ''Instrumento Particular'', asc ''CONTRATO_SOCIAL''),
      (seqs [word ''CONSTITUI'', CAO, spaces, opt (seqs [word ''POR'', spaces]),
             opt (seqs [word ''TRANSFORMA'', CAO])],
       asc ''Constitui'' @ [0xE7, 0xE3] @ asc ''o por Transforma'' @ [0xE7, 0xE3] @ asc ''o de Empres'' @ [0xE1] @ asc ''rio em Sociedade'', asc ''CONTRATO_SOCIAL''),
      (seqs [ALTERACAO, spaces, word ''CONTRATUAL''],
       asc ''Altera'' @ [0xE7, 0xE3] @ asc ''o Contratual'', asc ''CONTRATO_SOCIAL''),
      (seqs [ALTERACAO, spaces, opt (seqs [word ''DO'', spaces]), word ''CONTRATO'', spaces, word ''SOCIAL''],
       asc ''Altera'' @ [0xE7, 0xE3] @ asc ''o Contrato Social'', asc ''CONTRATO_SOCIAL''),
      (seqs [word ''ADITAMENTO'', spaces, opt (seqs [word ''AO'', spaces]), word ''CONTRATO''],
       asc ''Aditamento ao Contrato Social'', asc ''ADITAMENTO''),
      (seqs [word ''TERMO'', spaces, word ''ADITIVO''],
       asc ''Termo Aditivo'', asc ''ADITAMENTO''),
      (word ''ADITAMENTO'',
       asc ''Aditamento'', asc ''ADITAMENTO''),
      (seqs [ASSEMBLEIA_GERAL, spaces, ORDINARIA, spaces, word ''E'', spaces, word ''EXTRA'', ORDINARIA],
       asc ''Ata de Assembleia Geral Ordin'' @ [0xE1] @ asc ''ria e Extraordin'' @ [0xE1] @ asc ''ria'', asc ''ATA_DE_ASSEMBLEIA''),
      (seqs [ASSEMBLEIA_GERAL, spaces, word ''EXTRA'', ORDINARIA],
       asc ''Ata de Assembleia Geral Extraordin'' @ [0xE1] @ asc ''ria'', asc ''ATA_DE_ASSEMBLEIA''),
      (seqs [ASSEMBLEIA_GERAL, spaces, ORDINARIA],
       asc ''Ata de Assembleia Geral Ordin'' @ [0xE1] @ asc ''ria'', asc ''ATA_DE_ASSEMBLEIA''),
      (ASSEMBLEIA_GERAL,
       asc ''Ata de Assembleia Geral'', asc ''ATA_DE_ASSEMBLEIA''),
      (seqs [word ''ATA'', spaces, opt (seqs [word ''DE'', spaces]), word ''ELEI'', CAO],
       asc ''Ata de Elei'' @ [0xE7, 0xE3] @ asc ''o'', asc ''ATA_DE_ELEICAO''),
      (seqs [word ''ATA'', spaces, opt (seqs [word ''DE'', spaces]), word ''REUNI'', Sym [Ch 0xC3, Ch 65], word ''O''],
       asc ''Ata de Reuni'' @ [0xE3] @ asc ''o'', asc ''ATA_DE_ASSEMBLEIA''),
      (seqs [word ''ESTATUTO'', spaces, word ''SOCIAL'', opt (seqs [spaces, word ''CONSOLIDADO''])],
       asc ''Estatuto Social'', asc ''ESTATUTO_SOCIAL''),
      (seqs [word ''CONTRATO'', spaces, word ''SOCIAL''],
       asc ''Contrato Social'', asc ''CONTRATO_SOCIAL''),
      (seqs [opt (seqs [word ''INSTRUMENTO'', spaces,
                        opt (seqs [word ''P'', Sym [Ch 85, Ch 0xDA], word ''BLICO'', spaces]),
                        opt (seqs [word ''DE'', spaces])]),
             word ''PROCURA'', CAO],
       asc ''Procura'' @ [0xE7, 0xE3] @ asc ''o'', asc ''PROCURACAO''),
      (seqs [word ''CERTID'', Sym [Ch 0xC3, Ch 65], word ''O''],
       asc ''Certid'' @ [0xE3] @ asc ''o Simplificada'', asc ''CERTIDAO''),
      (seqs [word ''FICHA'', spaces, word ''CADASTRAL''],
       asc ''Ficha Cadastral'', asc ''FICHA_CADASTRAL'')]"

text \<open>\<open>collapse_ws s\<close> is \<open>re.sub(r'\s+', ' ', s)\<close>.\<close>

fun collapse_ws :: "bool \<Rightarrow> ustr \<Rightarrow> ustr" where
  "collapse_ws in_run [] = []"
| "collapse_ws in_run (c # cs) =
     (if is_space c then (if in_run then collapse_ws True cs else 32 # collapse_ws True cs)
      else c # collapse_ws False cs)"

definition PROCURACAO_NAME :: ustr where
  "PROCURACAO_NAME = asc ''Procura'' @ [0xE7, 0xE3] @ asc ''o''"

definition PROCURACAO_UPPER :: ustr where
  "PROCURACAO_UPPER = asc ''PROCURA'' @ [0xC7, 0xC3] @ asc ''O''"

fun first_document_name :: "ustr \<Rightarrow> (regex \<times> ustr \<times> ustr) list \<Rightarrow> ustr" where
  "first_document_name text [] = DATA_NOT_AVAILABLE"
| "first_document_name text ((pattern, doc_name, doc_type) # rules) =
     (case re_search False pattern text of
        None \<Rightarrow> first_document_name text rules
      | Some m \<Rightarrow>
          if contains doc_name PROCURACAO_NAME \<or> contains (py_upper doc_name) PROCURACAO_UPPER
          then first_document_name text rules
          else doc_name)"

definition extract_document_name :: "ustr \<Rightarrow> ustr" where
  "extract_document_name ocr_text =
     (if ocr_text = [] then DATA_NOT_AVAILABLE
      else let ocr_text_upper = py_upper ocr_text;
               ocr_text_normalized = collapse_ws False ocr_text_upper
           in first_document_name ocr_text_normalized DOCUMENT_PATTERNS)"

fun first_document_type :: "ustr \<Rightarrow> (regex \<times> ustr \<times> ustr) list \<Rightarrow> ustr" where
  "first_document_type text [] = asc ''DOCUMENTO_GENERICO''"
| "first_document_type text ((pattern, doc_name, doc_type) # rules) =
     (case re_search False pattern text of
        None \<Rightarrow> first_document_type text rules
      | Some m \<Rightarrow> doc_type)"

definition identify_document_type :: "ustr \<Rightarrow> ustr" where
  "identify_document_type text =
     (if text = [] then asc ''DOCUMENTO_GENERICO''
      else let text_upper = py_upper text;
               text_normalized = collapse_ws False text_upper
           in first_document_type text_normalized DOCUMENT_PATTERNS)"

section \<open>Representative records\<close>

text \<open>
  A representative is a Python dict from field names to strings. \<open>get rep k d\<close> is
  \<open>rep.get(k, d)\<close>.
\<close>

type_synonym rep = "string \<rightharpoonup> ustr"

definition get :: "rep \<Rightarrow> string \<Rightarrow> ustr \<Rightarrow> ustr" where
  "get rep k d = (case rep k of None \<Rightarrow> d | Some v \<Rightarrow> v)"

subsection \<open>RepresentativeValidator._validate_field_consistency\<close>

text \<open>
  The two \<open>print\<close> calls are the only effect besides the update of the dict, so the
  function returns the updated record and the list of messages, each with the name it
  prints and the two field names.
\<close>

datatype anomaly =
    Inconsistencia "ustr option" string string
  | Erro "ustr option" string string

definition field_pairs :: "(string \<times> string) list" where
  "field_pairs =
     [(''tipo_assinatura'', ''origem_assinatura''),
      (''regras_representacao'', ''origem_regras_representacao''),
      (''data_validade_regras'', ''origem_data_validade'')]"

definition check_pair :: "string \<times> string \<Rightarrow> rep \<times> anomaly list \<Rightarrow> rep \<times> anomaly list" where
  "check_pair p st =
     (case p of (main_field, origin_field) \<Rightarrow>
      case st of (rep, log) \<Rightarrow>
        let main_value = get rep main_field [];
            origin_value = get rep origin_field []
        in if main_value = DATA_NOT_AVAILABLE then
             (if origin_value \<noteq> DATA_NOT_AVAILABLE
              then (rep(origin_field \<mapsto> DATA_NOT_AVAILABLE),
                    log @ [Inconsistencia (rep ''nome'') main_field origin_field])
              else (rep, log))
           else if main_value \<noteq> [] \<and> main_value \<noteq> DATA_NOT_AVAILABLE then
             (if origin_value = DATA_NOT_AVAILABLE \<or> origin_value = []
              then (rep, log @ [Erro (rep ''nome'') main_field origin_field])
              else (rep, log))
           else (rep, log))"

definition validate_field_consistency :: "rep \<Rightarrow> rep \<times> anomaly list" where
  "validate_field_consistency rep = fold check_pair field_pairs (rep, [])"

subsection \<open>RepresentativeExtractor.validate_and_filter and calculate_count\<close>

definition rep_fields :: "string list" where
  "rep_fields =
     [''nome'', ''cpf'', ''cargo'', ''endereco_residencia'',
      ''tipo_assinatura'', ''origem_assinatura'', ''regras_representacao'',
      ''origem_regras_representacao'', ''data_validade_regras'',
      ''origem_data_validade'']"

definition fill_field :: "string \<Rightarrow> rep \<Rightarrow> rep" where
  "fill_field field rep =
     (if rep field = None \<or> rep field = Some [] then rep(field \<mapsto> DATA_NOT_AVAILABLE) else rep)"

definition fill_fields :: "rep \<Rightarrow> rep" where
  "fill_fields rep = fold fill_field rep_fields rep"

definition PROCURADOR_KEYWORDS :: "ustr list" where
  "PROCURADOR_KEYWORDS =
     [asc ''PROCURADOR'', asc ''OUTORGADO'', asc ''MANDAT'' @ [0xC1] @ asc ''RIO'', asc ''MANDATARIO'']"

definition is_procurador :: "rep \<Rightarrow> bool" where
  "is_procurador rep =
     (let cargo_upper = py_upper (get rep ''cargo'' [])
      in list_ex (\<lambda>keyword. contains cargo_upper keyword) PROCURADOR_KEYWORDS)"

fun unique_by_name :: "ustr list \<Rightarrow> rep list \<Rightarrow> rep list" where
  "unique_by_name seen_names [] = []"
| "unique_by_name seen_names (rep # reps) =
     (let nome = get rep ''nome'' []
      in if nome \<noteq> [] \<and> nome \<noteq> DATA_NOT_AVAILABLE then
           (let nome_normalized = py_upper (py_strip nome)
            in if nome_normalized \<notin> set seen_names
               then rep # unique_by_name (nome_normalized # seen_names) reps
               else unique_by_name seen_names reps)
         else unique_by_name seen_names reps)"

definition validate_and_filter :: "rep list \<Rightarrow> rep list" where
  "validate_and_filter representatives =
     (if representatives = [] then []
      else unique_by_name []
             (filter (\<lambda>rep. \<not> is_procurador rep) (map fill_fields representatives)))"

definition has_valid_name :: "rep \<Rightarrow> bool" where
  "has_valid_name rep = (let nome = get rep ''nome'' [] in nome \<noteq> [] \<and> nome \<noteq> DATA_NOT_AVAILABLE)"

definition calculate_count :: "rep list \<Rightarrow> nat" where
  "calculate_count representatives =
     (if representatives = [] then 0 else length (filter has_valid_name representatives))"

section \<open>ResponseBuilder\<close>















subsection \<open>The metadata block of build_response\<close>

record document_info =
  total_documents :: nat
  processed_documents :: nat
  is_multiple_documents :: bool
  exceeded_limit :: bool
  ignored_documents :: "ustr list"

text \<open>
  The block under \<open>document_metadata\<close>; a key that \<open>build_response\<close> may leave out is an
  option. The three keys of the multi-document analysis are copied from arguments that do
  not depend on the document info and are not part of the record.
\<close>

record metadata =
  md_total_documents :: nat
  md_processed_documents :: nat
  md_is_multiple_documents :: bool
  md_processing_type :: ustr
  md_exceeded_limit :: bool
  md_warning :: "ustr option"
  md_ignored_documents :: "ustr list option"

definition file_name :: "ustr \<Rightarrow> ustr" where
  "file_name doc = (if 47 \<in> set doc then last (split_char 47 doc) else doc)"

definition warning_text :: "document_info \<Rightarrow> ustr" where
  "warning_text di =
     asc ''Limite de 3 documentos excedido. Total recebido: '' @ str_nat (total_documents di)
       @ asc ''. Processados: '' @ str_nat (processed_documents di)
       @ asc ''. Ignorados: '' @ str_nat (length (ignored_documents di))"

definition build_metadata :: "document_info \<Rightarrow> metadata" where
  "build_metadata di =
     (let warn = exceeded_limit di \<and> ignored_documents di \<noteq> []
      in \<lparr> md_total_documents = total_documents di,
           md_processed_documents = processed_documents di,
           md_is_multiple_documents = is_multiple_documents di,
           md_processing_type = (if is_multiple_documents di then asc ''LOTE'' else [0xDA] @ asc ''NICO''),
           md_exceeded_limit = exceeded_limit di,
           md_warning = (if warn then Some (warning_text di) else None),
           md_ignored_documents = (if warn then Some (map file_name (ignored_documents di)) else None) \<rparr>)"

section \<open>CoreProcessor.process_pdfs\<close>

text \<open>
  The part of \<open>process_pdfs\<close> before the per-document loop: from the list under
  \<open>pdf_uris\<close> to the list the loop iterates over and the document info it stores in the
  receipt. The assignments are in the order of the source.
\<close>

definition MAX_DOCUMENTS :: nat where
  "MAX_DOCUMENTS = 3"

definition process_pdfs :: "ustr list \<Rightarrow> ustr list \<times> document_info" where
  "process_pdfs uris =
     (let total_docs = length uris;
          pdf_uris = (if total_docs > MAX_DOCUMENTS then take MAX_DOCUMENTS uris else uris);
          info = \<lparr> total_documents = total_docs,
                   processed_documents = length pdf_uris,
                   is_multiple_documents = length pdf_uris > 1,
                   exceeded_limit = total_docs > MAX_DOCUMENTS,
                   ignored_documents =
                     (if total_docs > MAX_DOCUMENTS then drop MAX_DOCUMENTS pdf_uris else []) \<rparr>
      in (pdf_uris, info))"

text \<open>The metadata of the response built for a batch.\<close>

definition batch_metadata :: "ustr list \<Rightarrow> metadata" where
  "batch_metadata uris = build_metadata (snd (process_pdfs uris))"

section \<open>Example inputs\<close>

text \<open>Concrete records, batches and texts at which the properties below are evaluated.\<close>

definition rep_without_type :: rep where
  "rep_without_type =
     [''nome'' \<mapsto> asc ''Ana Lima'', ''tipo_assinatura'' \<mapsto> DATA_NOT_AVAILABLE,
      ''origem_assinatura'' \<mapsto> asc ''Contrato Social, p. 2'']"

definition rep_without_origin :: rep where
  "rep_without_origin =
     [''nome'' \<mapsto> asc ''Ana Lima'', ''regras_representacao'' \<mapsto> asc ''Isoladamente'',
      ''origem_regras_representacao'' \<mapsto> DATA_NOT_AVAILABLE]"

definition sample_reps :: "rep list" where
  "sample_reps =
     [[''nome'' \<mapsto> asc ''Ana Lima'', ''cargo'' \<mapsto> asc ''Diretora''],
      [''nome'' \<mapsto> asc ''Rui Paz'', ''cargo'' \<mapsto> asc ''Procurador''],
      [''cpf'' \<mapsto> asc ''1''],
      [''nome'' \<mapsto> asc '' ana lima'', ''cargo'' \<mapsto> asc ''S'' @ [0xF3] @ asc ''cia'']]"

definition four_uris :: "ustr list" where
  "four_uris = [asc ''s3://in/a.pdf'', asc ''s3://in/b.pdf'', asc ''s3://in/c.pdf'', asc ''s3://in/d.pdf'']"




definition procuracao_text :: ustr where
  "procuracao_text = asc ''Procura'' @ [0xE7, 0xE3] @ asc ''o''"

definition signed_phrase :: ustr where
  "signed_phrase = asc ''assinado em 10 de mar'' @ [0xE7] @ asc ''o de 2023''"

definition signed_phrase_ascii :: ustr where
  "signed_phrase_ascii = asc ''assinado em 10 de marco de 2023''"

section \<open>Properties\<close>

named_theorems ev

lemmas [ev] = asc_def nfkd_def nfkd_char_def py_lower_def lower_char_def py_upper_def upper_char_def
  py_strip_def is_space_def is_digit_def is_word_def Let_def slice_def str_find_def
  lit_def seqs_def plus_def opt_def digit_def spaces_def digit12_def digit2_def digit3_def digit4_def
  group_def re_search_def re_match_def finditer_def at_boundary_def ci_eq_def ci_fold_def
  decimal_zeros_def digit_value_def
  zfill_def py_int_def DATA_NOT_AVAILABLE_def get_def

subsection \<open>Field consistency\<close>

lemma DATA_NOT_AVAILABLE_nonempty: "DATA_NOT_AVAILABLE \<noteq> []"
  by (simp add: DATA_NOT_AVAILABLE_def)

lemma check_pair_other:
  "k \<noteq> snd p \<Longrightarrow> fst (check_pair p st) k = fst st k"
  by (cases p; cases st) (simp add: check_pair_def Let_def)

lemma check_pair_origin:
  "fst (check_pair (m, og) st) og =
     (if get (fst st) m [] = DATA_NOT_AVAILABLE \<and> get (fst st) og [] \<noteq> DATA_NOT_AVAILABLE
      then Some DATA_NOT_AVAILABLE else fst st og)"
  by (cases st) (simp add: check_pair_def Let_def)

lemma check_pair_log_mono:
  "x \<in> set (snd st) \<Longrightarrow> x \<in> set (snd (check_pair p st))"
  by (cases p; cases st) (simp add: check_pair_def Let_def)

lemma check_pair_log_inconsistencia:
  "get (fst st) m [] = DATA_NOT_AVAILABLE \<Longrightarrow> get (fst st) og [] \<noteq> DATA_NOT_AVAILABLE \<Longrightarrow>
   Inconsistencia (fst st ''nome'') m og \<in> set (snd (check_pair (m, og) st))"
  by (cases st) (simp add: check_pair_def Let_def)

lemma check_pair_log_erro:
  "get (fst st) m [] \<noteq> DATA_NOT_AVAILABLE \<Longrightarrow> get (fst st) m [] \<noteq> [] \<Longrightarrow>
   get (fst st) og [] = DATA_NOT_AVAILABLE \<Longrightarrow>
   Erro (fst st ''nome'') m og \<in> set (snd (check_pair (m, og) st))"
  by (cases st) (simp add: check_pair_def Let_def)

lemma fold_check_pair_other:
  "k \<notin> snd ` set ps \<Longrightarrow> fst (fold check_pair ps st) k = fst st k"
  by (induction ps arbitrary: st) (simp_all add: check_pair_other)

lemma fold_check_pair_log_mono:
  "x \<in> set (snd st) \<Longrightarrow> x \<in> set (snd (fold check_pair ps st))"
  by (induction ps arbitrary: st) (simp_all add: check_pair_log_mono)

text \<open>
  The loop over any list of pairs whose origin fields are distinct, are not principal
  fields and are not the name: the pairs before and after a pair leave its two fields and
  the name alone, so what the loop does to a pair is what its own step does.
\<close>

lemma fold_check_pair_pair:
  assumes mem: "(m, og) \<in> set ps"
    and dist: "distinct (map snd ps)"
    and main: "m \<notin> snd ` set ps"
    and nome: "''nome'' \<notin> snd ` set ps"
  shows "(rep m = Some DATA_NOT_AVAILABLE \<and> rep og = Some v \<and> v \<noteq> DATA_NOT_AVAILABLE
            \<longrightarrow> fst (fold check_pair ps (rep, [])) og = Some DATA_NOT_AVAILABLE
                \<and> Inconsistencia (rep ''nome'') m og \<in> set (snd (fold check_pair ps (rep, []))))
       \<and> (rep m = Some v \<and> v \<noteq> [] \<and> v \<noteq> DATA_NOT_AVAILABLE \<and> rep og = Some DATA_NOT_AVAILABLE
            \<longrightarrow> fst (fold check_pair ps (rep, [])) m = Some v
                \<and> fst (fold check_pair ps (rep, [])) og = Some DATA_NOT_AVAILABLE
                \<and> Erro (rep ''nome'') m og \<in> set (snd (fold check_pair ps (rep, []))))"
proof -
  from mem obtain ps1 ps2 where ps: "ps = ps1 @ (m, og) # ps2"
    by (auto dest: split_list)
  define st1 where "st1 = fold check_pair ps1 (rep, [])"
  define st2 where "st2 = check_pair (m, og) st1"
  have res: "fold check_pair ps (rep, []) = fold check_pair ps2 st2"
    by (simp add: ps st1_def st2_def)
  from dist have og1: "og \<notin> snd ` set ps1" and og2: "og \<notin> snd ` set ps2"
    by (auto simp: ps)
  from main have m1: "m \<notin> snd ` set ps1" and m2: "m \<notin> snd ` set ps2" and mog: "m \<noteq> og"
    by (auto simp: ps)
  from nome have n1: "''nome'' \<notin> snd ` set ps1"
    by (auto simp: ps)
  have s1m: "fst st1 m = rep m" and s1o: "fst st1 og = rep og" and s1n: "fst st1 ''nome'' = rep ''nome''"
    using m1 og1 n1 by (simp_all add: st1_def fold_check_pair_other)
  have s2m: "fst st2 m = rep m"
    using mog by (simp add: st2_def check_pair_other s1m)
  have fm: "fst (fold check_pair ps (rep, [])) m = rep m"
    using m2 by (simp add: res fold_check_pair_other s2m)
  have fo: "fst (fold check_pair ps (rep, [])) og = fst st2 og"
    using og2 by (simp add: res fold_check_pair_other)
  show ?thesis
  proof (intro conjI impI)
    assume a: "rep m = Some DATA_NOT_AVAILABLE \<and> rep og = Some v \<and> v \<noteq> DATA_NOT_AVAILABLE"
    have c1: "get (fst st1) m [] = DATA_NOT_AVAILABLE" and c2: "get (fst st1) og [] \<noteq> DATA_NOT_AVAILABLE"
      using a by (simp_all add: get_def s1m s1o)
    show "fst (fold check_pair ps (rep, [])) og = Some DATA_NOT_AVAILABLE"
      using c1 c2 by (simp add: fo st2_def check_pair_origin)
    have "Inconsistencia (fst st1 ''nome'') m og \<in> set (snd st2)"
      unfolding st2_def using c1 c2 by (rule check_pair_log_inconsistencia)
    then show "Inconsistencia (rep ''nome'') m og \<in> set (snd (fold check_pair ps (rep, [])))"
      by (simp add: res s1n fold_check_pair_log_mono)
  next
    assume a: "rep m = Some v \<and> v \<noteq> [] \<and> v \<noteq> DATA_NOT_AVAILABLE \<and> rep og = Some DATA_NOT_AVAILABLE"
    have c1: "get (fst st1) m [] \<noteq> DATA_NOT_AVAILABLE" and c2: "get (fst st1) m [] \<noteq> []"
      and c3: "get (fst st1) og [] = DATA_NOT_AVAILABLE"
      using a by (simp_all add: get_def s1m s1o)
    show "fst (fold check_pair ps (rep, [])) m = Some v"
      using a by (simp add: fm)
    show "fst (fold check_pair ps (rep, [])) og = Some DATA_NOT_AVAILABLE"
      using c1 a by (simp add: fo st2_def check_pair_origin s1o)
    have "Erro (fst st1 ''nome'') m og \<in> set (snd st2)"
      unfolding st2_def using c1 c2 c3 by (rule check_pair_log_erro)
    then show "Erro (rep ''nome'') m og \<in> set (snd (fold check_pair ps (rep, [])))"
      by (simp add: res s1n fold_check_pair_log_mono)
  qed
qed

lemma field_pairs_distinct: "distinct (map snd field_pairs)"
  by (simp add: field_pairs_def)

lemma field_pairs_main: "(m, og) \<in> set field_pairs \<Longrightarrow> m \<notin> snd ` set field_pairs"
  by (auto simp: field_pairs_def)

lemma field_pairs_nome: "''nome'' \<notin> snd ` set field_pairs"
  by (simp add: field_pairs_def)

text \<open>
  C7. For each of the three pairs of a principal field and its origin field: when the
  principal field is the sentinel and the origin field holds another value, validation
  sets the origin field to the sentinel (and prints the inconsistency); when the principal
  field holds a real value and the origin field is the sentinel, validation prints the
  error and leaves both fields as they are.
\<close>

theorem field_consistency_correction:
  assumes "(m, og) \<in> set field_pairs"
  shows "(rep m = Some DATA_NOT_AVAILABLE \<and> rep og = Some v \<and> v \<noteq> DATA_NOT_AVAILABLE
            \<longrightarrow> fst (validate_field_consistency rep) og = Some DATA_NOT_AVAILABLE
                \<and> Inconsistencia (rep ''nome'') m og \<in> set (snd (validate_field_consistency rep)))
       \<and> (rep m = Some v \<and> v \<noteq> [] \<and> v \<noteq> DATA_NOT_AVAILABLE \<and> rep og = Some DATA_NOT_AVAILABLE
            \<longrightarrow> fst (validate_field_consistency rep) m = Some v
                \<and> fst (validate_field_consistency rep) og = Some DATA_NOT_AVAILABLE
                \<and> Erro (rep ''nome'') m og \<in> set (snd (validate_field_consistency rep)))"
  unfolding validate_field_consistency_def
  by (rule fold_check_pair_pair [OF assms field_pairs_distinct field_pairs_main [OF assms] field_pairs_nome])

theorem field_consistency_correction_witness:
  "(''tipo_assinatura'', ''origem_assinatura'') \<in> set field_pairs
   \<and> fst (validate_field_consistency rep_without_type) ''origem_assinatura'' = Some DATA_NOT_AVAILABLE
   \<and> Inconsistencia (Some (asc ''Ana Lima'')) ''tipo_assinatura'' ''origem_assinatura''
        \<in> set (snd (validate_field_consistency rep_without_type))
   \<and> (''regras_representacao'', ''origem_regras_representacao'') \<in> set field_pairs
   \<and> fst (validate_field_consistency rep_without_origin) ''regras_representacao'' = Some (asc ''Isoladamente'')
   \<and> fst (validate_field_consistency rep_without_origin) ''origem_regras_representacao''
        = Some DATA_NOT_AVAILABLE
   \<and> Erro (Some (asc ''Ana Lima'')) ''regras_representacao'' ''origem_regras_representacao''
        \<in> set (snd (validate_field_consistency rep_without_origin))"
proof -
  have p1: "(''tipo_assinatura'', ''origem_assinatura'') \<in> set field_pairs"
    and p2: "(''regras_representacao'', ''origem_regras_representacao'') \<in> set field_pairs"
    by (simp_all add: field_pairs_def)
  have v1: "asc ''Contrato Social, p. 2'' \<noteq> DATA_NOT_AVAILABLE"
    and v2: "asc ''Isoladamente'' \<noteq> DATA_NOT_AVAILABLE" "asc ''Isoladamente'' \<noteq> []"
    by (simp_all add: DATA_NOT_AVAILABLE_def asc_def)
  have a: "rep_without_type ''tipo_assinatura'' = Some DATA_NOT_AVAILABLE"
    "rep_without_type ''origem_assinatura'' = Some (asc ''Contrato Social, p. 2'')"
    "rep_without_type ''nome'' = Some (asc ''Ana Lima'')"
    by (simp_all add: rep_without_type_def)
  have b: "rep_without_origin ''regras_representacao'' = Some (asc ''Isoladamente'')"
    "rep_without_origin ''origem_regras_representacao'' = Some DATA_NOT_AVAILABLE"
    "rep_without_origin ''nome'' = Some (asc ''Ana Lima'')"
    by (simp_all add: rep_without_origin_def)
  show ?thesis
    using field_consistency_correction [OF p1, of rep_without_type "asc ''Contrato Social, p. 2''"]
      field_consistency_correction [OF p2, of rep_without_origin "asc ''Isoladamente''"]
      p1 p2 v1 v2 a b
    by simp
qed

subsection \<open>validate_and_filter\<close>

lemma unique_by_name_valid: "rep \<in> set (unique_by_name seen reps) \<Longrightarrow> has_valid_name rep"
  by (induction seen reps rule: unique_by_name.induct)
     (auto simp: Let_def has_valid_name_def split: if_splits)

lemma validate_and_filter_valid: "rep \<in> set (validate_and_filter reps) \<Longrightarrow> has_valid_name rep"
  by (auto simp: validate_and_filter_def dest: unique_by_name_valid split: if_splits)

lemma has_valid_name_Some:
  "has_valid_name rep \<Longrightarrow> \<exists>nome. rep ''nome'' = Some nome \<and> nome \<noteq> [] \<and> nome \<noteq> DATA_NOT_AVAILABLE"
  by (cases "rep ''nome''") (simp_all add: has_valid_name_def get_def)

lemma calculate_count_all_valid:
  "\<forall>rep \<in> set reps. has_valid_name rep \<Longrightarrow> calculate_count reps = length reps"
  by (simp add: calculate_count_def)

text \<open>
  C9. Every record that \<open>validate_and_filter\<close> returns has a name that is neither empty
  nor the sentinel, so \<open>calculate_count\<close> of the returned list is its length.
\<close>

theorem validate_and_filter_names:
  "(\<forall>rep \<in> set (validate_and_filter reps).
       \<exists>nome. rep ''nome'' = Some nome \<and> nome \<noteq> [] \<and> nome \<noteq> DATA_NOT_AVAILABLE)
   \<and> calculate_count (validate_and_filter reps) = length (validate_and_filter reps)"
  using validate_and_filter_valid has_valid_name_Some calculate_count_all_valid by blast

lemma sample_reps_names:
  "map (\<lambda>rep. rep ''nome'') (validate_and_filter sample_reps) = [Some (asc ''Ana Lima'')]"
  by (simp add: sample_reps_def validate_and_filter_def fill_fields_def rep_fields_def fill_field_def
      is_procurador_def PROCURADOR_KEYWORDS_def ev)

theorem validate_and_filter_names_witness:
  "map (\<lambda>rep. rep ''nome'') (validate_and_filter sample_reps) = [Some (asc ''Ana Lima'')]
   \<and> length (validate_and_filter sample_reps) = 1
   \<and> calculate_count (validate_and_filter sample_reps) = 1"
proof -
  have "length (map (\<lambda>rep. rep ''nome'') (validate_and_filter sample_reps)) = 1"
    by (simp only: sample_reps_names) simp
  then have len: "length (validate_and_filter sample_reps) = 1"
    by simp
  with validate_and_filter_names [of sample_reps] sample_reps_names show ?thesis
    by simp
qed

subsection \<open>Document limit\<close>

lemma process_pdfs_ignored: "ignored_documents (snd (process_pdfs uris)) = []"
  by (simp add: process_pdfs_def Let_def MAX_DOCUMENTS_def)

text \<open>
  C1. For a batch of more than three URIs the first three are processed, and the metadata
  has \<open>exceeded_limit\<close> true and \<open>processed_documents\<close> three. The list of ignored
  documents is cut from the list that has already been truncated, so it is empty, and the
  metadata carries neither the warning nor the \<open>ignored_documents\<close> key.
\<close>

theorem over_limit_metadata:
  assumes "length uris > 3"
  shows "fst (process_pdfs uris) = take 3 uris
       \<and> md_exceeded_limit (batch_metadata uris)
       \<and> md_processed_documents (batch_metadata uris) = 3
       \<and> md_warning (batch_metadata uris) = None
       \<and> md_ignored_documents (batch_metadata uris) = None"
  using assms
  by (simp add: batch_metadata_def build_metadata_def process_pdfs_def Let_def MAX_DOCUMENTS_def)

theorem over_limit_metadata_witness:
  "length four_uris > 3
   \<and> fst (process_pdfs four_uris) = [asc ''s3://in/a.pdf'', asc ''s3://in/b.pdf'', asc ''s3://in/c.pdf'']
   \<and> md_exceeded_limit (batch_metadata four_uris)
   \<and> md_processed_documents (batch_metadata four_uris) = 3
   \<and> md_warning (batch_metadata four_uris) = None
   \<and> md_ignored_documents (batch_metadata four_uris) = None"
proof -
  have h: "length four_uris > 3" by (simp add: four_uris_def)
  show ?thesis using h over_limit_metadata [OF h] by (simp add: four_uris_def)
qed

subsection \<open>CNPJ normalisation\<close>

lemma digits_only_all: "list_all is_digit (digits_only s)"
  by (simp add: digits_only_def list_all_iff)

lemma digits_only_id: "list_all is_digit d \<Longrightarrow> digits_only d = d"
  by (simp add: digits_only_def list_all_iff)

lemma digits_only_append: "digits_only (a @ b) = digits_only a @ digits_only b"
  by (simp add: digits_only_def)

lemma list_all_take: "list_all P d \<Longrightarrow> list_all P (take n d)"
  by (auto simp: list_all_iff dest: in_set_takeD)

lemma list_all_drop: "list_all P d \<Longrightarrow> list_all P (drop n d)"
  by (auto simp: list_all_iff dest: in_set_dropD)

lemma take_take_drop: "take n xs @ take m (drop n xs) = take (n + m) xs"
  by (simp add: take_add)

lemma digits_only_format:
  assumes "list_all is_digit d"
  shows "digits_only (format_cnpj d) = d"
proof -
  have sep: "digits_only (asc ''.'') = []" "digits_only (asc ''/'') = []" "digits_only (asc ''-'') = []"
    by (simp_all add: digits_only_def asc_def is_digit_def)
  have "digits_only (format_cnpj d)
        = take 2 d @ take 3 (drop 2 d) @ take 3 (drop 5 d) @ take 4 (drop 8 d) @ drop 12 d"
    using assms
    by (simp add: format_cnpj_def slice_def digits_only_append sep digits_only_id list_all_take list_all_drop)
  also have "\<dots> = d"
  proof -
    have a: "take 2 d @ take 3 (drop 2 d) = take 5 d" using take_take_drop [of 2 d 3] by simp
    have b: "take 5 d @ take 3 (drop 5 d) = take 8 d" using take_take_drop [of 5 d 3] by simp
    have c: "take 8 d @ take 4 (drop 8 d) = take 12 d" using take_take_drop [of 8 d 4] by simp
    have "take 2 d @ take 3 (drop 2 d) @ take 3 (drop 5 d) @ take 4 (drop 8 d) @ drop 12 d
          = ((take 2 d @ take 3 (drop 2 d)) @ take 3 (drop 5 d)) @ take 4 (drop 8 d) @ drop 12 d"
      by simp
    also have "\<dots> = take 12 d @ drop 12 d"
      by (simp only: a b) (simp only: append_assoc [symmetric] c)
    finally show ?thesis by simp
  qed
  finally show ?thesis .
qed

lemma format_cnpj_nonempty: "format_cnpj d \<noteq> []"
  by (simp add: format_cnpj_def asc_def)

lemma normalize_cnpj_idem: "normalize_cnpj (normalize_cnpj s) = normalize_cnpj s"
proof (cases "s \<noteq> [] \<and> length (digits_only s) = CNPJ_LENGTH")
  case True
  then have n: "normalize_cnpj s = format_cnpj (digits_only s)"
    by (simp add: normalize_cnpj_def Let_def)
  have "digits_only (format_cnpj (digits_only s)) = digits_only s"
    by (rule digits_only_format [OF digits_only_all])
  with True show ?thesis
    by (simp add: n normalize_cnpj_def Let_def format_cnpj_nonempty)
next
  case False
  then have "normalize_cnpj s = []"
    by (auto simp: normalize_cnpj_def Let_def)
  then show ?thesis by (simp add: normalize_cnpj_def)
qed

text \<open>
  C5. Normalising the CNPJ extracted from any text twice gives what normalising it once
  gives.
\<close>

theorem normalize_extract_idempotent:
  "normalize_cnpj (normalize_cnpj (extract_from_ocr t)) = normalize_cnpj (extract_from_ocr t)"
  by (rule normalize_cnpj_idem)

subsection \<open>The CNPJ of the final record\<close>























subsection \<open>Document names\<close>

lemma startswith_refl: "startswith s s"
  by (induction s) auto

lemma contains_refl: "contains s s"
  by (cases s) (auto simp: startswith_refl)

lemma first_document_name_result:
  "first_document_name t rules = DATA_NOT_AVAILABLE
   \<or> \<not> contains (first_document_name t rules) PROCURACAO_NAME"
  by (induction t rules rule: first_document_name.induct) (auto split: option.splits)

lemma sentinel_not_procuracao: "\<not> contains DATA_NOT_AVAILABLE PROCURACAO_NAME"
  by (simp add: DATA_NOT_AVAILABLE_def PROCURACAO_NAME_def asc_def)

lemma extract_document_name_no_procuracao:
  "\<not> contains (extract_document_name t) PROCURACAO_NAME"
proof (cases "t = []")
  case True
  then show ?thesis
    by (simp add: extract_document_name_def sentinel_not_procuracao)
next
  case False
  then have "extract_document_name t
             = first_document_name (collapse_ws False (py_upper t)) DOCUMENT_PATTERNS"
    by (simp add: extract_document_name_def Let_def)
  with first_document_name_result [of "collapse_ws False (py_upper t)" DOCUMENT_PATTERNS]
    sentinel_not_procuracao
  show ?thesis by auto
qed

lemma procuracao_text_normalized:
  "collapse_ws False (py_upper procuracao_text) = PROCURACAO_UPPER"
  by (simp add: procuracao_text_def PROCURACAO_UPPER_def ev)

lemmas document_ev = DOCUMENT_PATTERNS_def word_def CAO_def ALTERACAO_def ORDINARIA_def
  ASSEMBLEIA_GERAL_def PROCURACAO_UPPER_def PROCURACAO_NAME_def

lemma procuracao_type:
  "first_document_type PROCURACAO_UPPER DOCUMENT_PATTERNS = asc ''PROCURACAO''"
  by (simp add: document_ev ev)

lemma procuracao_name:
  "first_document_name PROCURACAO_UPPER DOCUMENT_PATTERNS = DATA_NOT_AVAILABLE"
  by (simp add: document_ev ev)

text \<open>
  C6. For every text the display name that \<open>extract_document_name\<close> returns is not
  \<open>Procura\c{c}\~ao\<close> and does not contain it; for the text \<open>Procura\c{c}\~ao\<close>, which only the
  power-of-attorney rule matches, \<open>identify_document_type\<close> returns \<open>PROCURACAO\<close> and
  \<open>extract_document_name\<close> returns the fallback value.
\<close>

theorem display_name_never_procuracao:
  "extract_document_name t \<noteq> PROCURACAO_NAME
   \<and> \<not> contains (extract_document_name t) PROCURACAO_NAME
   \<and> identify_document_type procuracao_text = asc ''PROCURACAO''
   \<and> extract_document_name procuracao_text = DATA_NOT_AVAILABLE"
proof -
  have ne: "procuracao_text \<noteq> []"
    by (simp add: procuracao_text_def)
  have "extract_document_name t \<noteq> PROCURACAO_NAME"
    using extract_document_name_no_procuracao [of t] contains_refl [of PROCURACAO_NAME] by auto
  moreover have "identify_document_type procuracao_text = asc ''PROCURACAO''"
    using ne by (simp add: identify_document_type_def Let_def procuracao_text_normalized procuracao_type)
  moreover have "extract_document_name procuracao_text = DATA_NOT_AVAILABLE"
    using ne by (simp add: extract_document_name_def Let_def procuracao_text_normalized procuracao_name)
  ultimately show ?thesis
    using extract_document_name_no_procuracao by simp
qed

subsection \<open>Signature date, level 0\<close>

lemmas date_ev = is_leap_def days_in_month_def valid_ymd_def is_valid_date_def
  ISO_DATE_PATTERN_def SIMPLE_DATE_PATTERN_def MONTH_DATE_PATTERN_def EXTENDED_DATE_PATTERN_def
  MONTH_NAMES_def normalize_simple_def normalize_extended_def normalize_any_def
  date_sep_def numeric_date_def extended_date_def signature_patterns_def
  extract_signature_date_level_0_def

text \<open>
  The text handed to the patterns: the cedilla of \<open>mar\c{c}o\<close> is decomposed into \<open>c\<close> and
  the combining character U+0327, which \<open>[a-z]+\<close> cannot cross.
\<close>

lemma signed_phrase_lower:
  "py_lower (nfkd signed_phrase) = asc ''assinado em 10 de marc'' @ [0x327] @ asc ''o de 2023''"
  by (simp add: signed_phrase_def ev)

text \<open>
  C2. On the text \<open>assinado em 10 de mar\c{c}o de 2023\<close> the level 0 extraction finds no
  signature date: none of its seven patterns matches the month written with its cedilla.
\<close>

theorem level_0_misses_accented_month:
  "extract_signature_date_level_0 signed_phrase = None"
  by (simp add: signed_phrase_def date_ev ev)

text \<open>With the month written \<open>marco\<close> the same phrase resolves to the date.\<close>

lemma level_0_unaccented_month:
  "extract_signature_date_level_0 signed_phrase_ascii = Some (asc ''2023-03-10'')"
  by (simp add: signed_phrase_ascii_def date_ev ev)

text \<open>The entry of the month table for \<open>mar\c{c}o\<close> cannot be reached from \<open>normalize_any\<close>
  either.\<close>

lemma accented_month_not_normalized:
  "normalize_any (asc ''10 de mar'' @ [0xE7] @ asc ''o de 2023'') = None"
  by (simp add: date_ev ev)

subsection \<open>What the patterns capture\<close>






























subsection \<open>The first match of a pattern\<close>

lemma first_Eps: "first_match ic Eps st = Some st"
  by (simp add: first_match_def)



lemma first_Alt: "first_match ic a st = Some x \<Longrightarrow> first_match ic (Alt a b) st = Some x"
  by (auto simp: first_match_def split: list.splits)











































subsection \<open>A text in the ISO form\<close>



subsection \<open>A text in the numeric form\<close>




subsection \<open>A text in the extended form\<close>




subsection \<open>Validation in normalize_any\<close>





text \<open>
  In a longer text the first numeric date is read and, if it is no date of the calendar,
  the first extended date after all; the digits may be those of any script.
\<close>

lemma invalid_numeric_date_then_extended_date:
  "normalize_any (asc ''31/02/2023 e 1 de janeiro de 2024'') = Some (asc ''2024-01-01'')"
  by (simp add: date_ev ev)

lemma arabic_indic_numeric_date:
  "normalize_any [0x660, 0x661, 47, 0x660, 0x662, 47, 0x662, 0x660, 0x662, 0x663]
     = Some [0x662, 0x660, 0x662, 0x663, 45, 0x660, 0x662, 45, 0x660, 0x661]"
  by (simp add: date_ev ev)

lemma arabic_indic_iso_date:
  "normalize_any [0x662, 0x660, 0x662, 0x663, 45, 0x660, 0x662, 45, 0x663, 0x660]
     = Some [0x662, 0x660, 0x662, 0x663, 45, 0x660, 0x662, 45, 0x663, 0x660]"
  by (simp add: date_ev ev)


subsection \<open>The order of the CNPJ patterns\<close>










lemma first_some_head: "f x = Some y \<Longrightarrow> first_some f (x # xs) = Some y"
  by simp

















end
